theory Spec2Isabelle
  imports Complex_Main "HOL-Library.AList"
begin

section \<open>Data model (server/gameLogic.ts, server/gameServer.ts)\<close>

text \<open>
  JavaScript numbers that carry coordinates, health and damage are modelled as
  mathematical reals, clock readings (\<open>Date.now()\<close>, milliseconds) and scores as
  integers. Strings are HOL strings. A \<open>Map\<close> is an association list in insertion
  order: \<open>AList.update\<close> is \<open>Map.set\<close> (an existing key keeps its place),
  \<open>AList.delete\<close> is \<open>Map.delete\<close>, \<open>map_of\<close> is \<open>Map.get\<close>.
\<close>

type_synonym vec3 = "real \<times> real \<times> real"

datatype Team = red | blue

text \<open>The connection-level player of \<open>GameServer\<close> (interface \<open>Player\<close>); a
  socket is a handle.\<close>

record Player =
  id' :: string
  name :: string
  ws :: nat
  position :: vec3
  rotation :: vec3
  health :: real
  color :: string
  roomId :: "string option"

text \<open>The room-level player (interface \<open>GamePlayer\<close>).\<close>

record GamePlayer =
  id' :: string
  name :: string
  ws :: nat
  position :: vec3
  rotation :: vec3
  health :: real
  color :: string
  score :: int
  isAlive :: bool
  lastShotTime :: int
  team :: Team

record Bullet =
  id' :: string
  playerId :: string
  position :: vec3
  direction :: vec3
  weapon :: string
  startTime :: int
  lastUpdateTime :: int
  speed :: real
  damage :: "real option"

text \<open>The object passed to \<open>GameRoom.handleBullet\<close>.\<close>

record BulletData =
  id' :: string
  playerId :: string
  position :: vec3
  direction :: vec3
  weapon :: string

text \<open>Outbound messages, one constructor per \<open>type\<close> the room or the server sends.\<close>

datatype Msg =
    TeamAssigned Team string
  | TeamScoresUpdate int int
  | TeamVictory Team int int string
  | PlayerJoined string string vec3 vec3 real string Team
  | PlayerLeft string
  | PlayerUpdate string vec3 vec3 real
  | BulletFired string string vec3 vec3 string real real
  | PlayerHit string real string string
  | PlayerEliminated string string string string string
  | PlayerRespawned string vec3
  | RoomCreated string string
  | RoomJoined string
  | Error string

text \<open>What a room emits: a call of \<open>this.broadcast(message, excludePlayerId)\<close>, or a
  \<open>player.ws.send\<close> to one player.\<close>

datatype Event = Broadcast Msg "string option" | Send string Msg

text \<open>
  The state of a \<open>GameRoom\<close>. \<open>GamePlayer\<close> objects live in the store \<open>objects\<close>
  (\<open>nextRef\<close> is the next free reference) and the player map holds references to
  them, because the respawn callback scheduled by \<open>updateBullets\<close> keeps the
  reference of the eliminated player's object.
  \<open>timers\<close> is the queue of pending \<open>setTimeout\<close> callbacks of this room: the time
  from which a callback may fire, and the \<open>playerId\<close> and \<open>player\<close> it captured.
  \<open>outbox\<close> collects what the room sends, oldest first.
\<close>

record GameRoom =
  code :: string
  objects :: "nat \<Rightarrow> GamePlayer"
  nextRef :: nat
  players :: "(string \<times> nat) list"
  bullets :: "(string \<times> Bullet) list"
  teamScores :: "Team \<Rightarrow> int"
  scoreLimit :: int
  gameEnded :: bool
  timers :: "(int \<times> string \<times> nat) list"
  outbox :: "Event list"

section \<open>GameRoom\<close>

text \<open>The content of a store cell that no object occupies yet; it is never read.\<close>

definition unallocated :: GamePlayer where
  "unallocated =
     \<lparr>GamePlayer.id' = [], GamePlayer.name = [], GamePlayer.ws = 0,
      GamePlayer.position = (0, 0, 0), GamePlayer.rotation = (0, 0, 0), GamePlayer.health = 0,
      GamePlayer.color = [], score = 0, isAlive = False, lastShotTime = 0, team = red\<rparr>"

definition newGameRoom :: "string \<Rightarrow> GameRoom" where
  "newGameRoom c =
     \<lparr>code = c, objects = (\<lambda>_. unallocated), nextRef = 0, players = [], bullets = [], teamScores = (\<lambda>_. 0),
      scoreLimit = 50, gameEnded = False, timers = [], outbox = []\<rparr>"

definition broadcast :: "Msg \<Rightarrow> string option \<Rightarrow> GameRoom \<Rightarrow> GameRoom" where
  "broadcast message excludePlayerId r = r\<lparr>outbox := outbox r @ [Broadcast message excludePlayerId]\<rparr>"

definition send :: "string \<Rightarrow> Msg \<Rightarrow> GameRoom \<Rightarrow> GameRoom" where
  "send pid message r = r\<lparr>outbox := outbox r @ [Send pid message]\<rparr>"

text \<open>The object a reference denotes, and an in-place mutation of it.\<close>

definition obj :: "GameRoom \<Rightarrow> nat \<Rightarrow> GamePlayer" where
  "obj r ref = objects r ref"

definition modObj :: "nat \<Rightarrow> (GamePlayer \<Rightarrow> GamePlayer) \<Rightarrow> GameRoom \<Rightarrow> GameRoom" where
  "modObj ref f r = r\<lparr>objects := (objects r)(ref := f (objects r ref))\<rparr>"

definition assignPlayerTeam :: "GameRoom \<Rightarrow> Team" where
  "assignPlayerTeam r = (let playerCount = length (players r) in
     if playerCount mod 2 = 0 then red else blue)"

definition getTeamColor :: "Team \<Rightarrow> string" where
  "getTeamColor t = (if t = red then ''#ff4444'' else ''#4444ff'')"

definition victoryMessage :: "Team \<Rightarrow> string" where
  "victoryMessage t = (if t = red then ''RED'' else ''BLUE'') @ '' TEAM WINS!''"

text \<open>\<open>players.forEach\<close> of \<open>checkForVictory\<close>: the victory bonus.\<close>

fun awardBonus :: "Team \<Rightarrow> (string \<times> nat) list \<Rightarrow> GameRoom \<Rightarrow> GameRoom" where
  "awardBonus winningTeam [] r = r"
| "awardBonus winningTeam ((pid, ref) # ps) r =
     awardBonus winningTeam ps
       (if team (obj r ref) = winningTeam
        then modObj ref (\<lambda>p. p\<lparr>score := score p + 500\<rparr>) r else r)"

definition checkForVictory :: "GameRoom \<Rightarrow> GameRoom" where
  "checkForVictory r =
     (if gameEnded r then r
      else
        let red' = teamScores r red; blue' = teamScores r blue;
            winningTeam = (if red' \<ge> scoreLimit r then Some red
                           else if blue' \<ge> scoreLimit r then Some blue else None)
        in case winningTeam of
             None \<Rightarrow> r
           | Some w \<Rightarrow>
               let r1 = r\<lparr>gameEnded := True\<rparr>;
                   r2 = broadcast (TeamVictory w red' blue' (victoryMessage w)) None r1
               in awardBonus w (players r2) r2)"

definition getTeamScores :: "GameRoom \<Rightarrow> Team \<Rightarrow> int" where
  "getTeamScores r = teamScores r"

text \<open>The last \<open>forEach\<close> of \<open>addPlayer\<close>: the roster sent to the new player.\<close>

fun sendRoster :: "string \<Rightarrow> (string \<times> nat) list \<Rightarrow> GameRoom \<Rightarrow> GameRoom" where
  "sendRoster newId [] r = r"
| "sendRoster newId ((pid, ref) # ps) r =
     sendRoster newId ps
       (if pid \<noteq> newId
        then (let e = obj r ref in
              send newId (PlayerJoined pid (GamePlayer.name e) (GamePlayer.position e)
                (GamePlayer.rotation e) (GamePlayer.health e) (GamePlayer.color e) (team e)) r)
        else r)"

definition addPlayer :: "Player \<Rightarrow> GameRoom \<Rightarrow> GameRoom" where
  "addPlayer player r =
     (let team' = assignPlayerTeam r;
          teamColor = getTeamColor team';
          gamePlayer = \<lparr>GamePlayer.id' = Player.id' player, GamePlayer.name = Player.name player,
             GamePlayer.ws = Player.ws player, GamePlayer.position = Player.position player,
             GamePlayer.rotation = Player.rotation player, GamePlayer.health = Player.health player,
             GamePlayer.color = teamColor, score = 0, isAlive = True, lastShotTime = 0,
             team = team'\<rparr>;
          r1 = r\<lparr>objects := (objects r)(nextRef r := gamePlayer), nextRef := nextRef r + 1,
                 players := AList.update (Player.id' player) (nextRef r) (players r)\<rparr>;
          r2 = send (Player.id' player) (TeamAssigned team' teamColor) r1;
          r3 = send (Player.id' player)
                 (TeamScoresUpdate (teamScores r2 red) (teamScores r2 blue)) r2;
          r4 = (if gameEnded r3 \<and> (teamScores r3 red \<ge> scoreLimit r3 \<or> teamScores r3 blue \<ge> scoreLimit r3)
                then (let winningTeam = (if teamScores r3 red \<ge> scoreLimit r3 then red else blue)
                      in send (Player.id' player)
                           (TeamVictory winningTeam (teamScores r3 red) (teamScores r3 blue)
                              (victoryMessage winningTeam)) r3)
                else r3);
          r5 = broadcast (PlayerJoined (Player.id' player) (Player.name player)
                  (Player.position player) (Player.rotation player) (Player.health player)
                  teamColor team') (Some (Player.id' player)) r4
      in sendRoster (Player.id' player) (players r5) r5)"

definition removePlayer :: "string \<Rightarrow> GameRoom \<Rightarrow> GameRoom" where
  "removePlayer pid r =
     (case map_of (players r) pid of
        None \<Rightarrow> r
      | Some ref \<Rightarrow> broadcast (PlayerLeft pid) None (r\<lparr>players := AList.delete pid (players r)\<rparr>))"

definition broadcastPlayerUpdate :: "Player \<Rightarrow> GameRoom \<Rightarrow> GameRoom" where
  "broadcastPlayerUpdate player r =
     (case map_of (players r) (Player.id' player) of
        None \<Rightarrow> r
      | Some ref \<Rightarrow>
          broadcast (PlayerUpdate (Player.id' player) (Player.position player)
              (Player.rotation player) (Player.health player)) (Some (Player.id' player))
            (modObj ref (\<lambda>g. g\<lparr>GamePlayer.position := Player.position player,
                                 GamePlayer.rotation := Player.rotation player,
                                 GamePlayer.health := Player.health player\<rparr>) r))"

definition getWeaponDamage :: "string \<Rightarrow> real" where
  "getWeaponDamage w =
     (if w = ''pistol'' then 25 else if w = ''rifle'' then 35
      else if w = ''shotgun'' then 60 else 25)"

definition getWeaponSpeed :: "string \<Rightarrow> real" where
  "getWeaponSpeed w =
     (if w = ''pistol'' then 80 else if w = ''rifle'' then 120
      else if w = ''shotgun'' then 60 else 100)"

definition dirLength :: "vec3 \<Rightarrow> real" where
  "dirLength d = (case d of (x, y, z) \<Rightarrow> sqrt (x * x + y * y + z * z))"

text \<open>
  \<open>handleBullet\<close> reads the clock twice: \<open>now\<close> for the rate check and \<open>now2\<close> for the
  bullet's timestamps. A dropped submission only writes to the console, which the
  model leaves out.
\<close>

definition handleBullet :: "int \<Rightarrow> int \<Rightarrow> BulletData \<Rightarrow> GameRoom \<Rightarrow> GameRoom" where
  "handleBullet now now2 bulletData r =
     (let player = map_of (players r) (BulletData.playerId bulletData);
          minTimeBetweenShots = 100
      in if (case player of
               Some ref \<Rightarrow> now - lastShotTime (obj r ref) < minTimeBetweenShots
             | None \<Rightarrow> False)
         then r
         else
           let r1 = (case player of
                       Some ref \<Rightarrow> modObj ref (\<lambda>p. p\<lparr>lastShotTime := now\<rparr>) r
                     | None \<Rightarrow> r);
               dirLength' = dirLength (BulletData.direction bulletData)
           in if dirLength' \<le> 1 / 1000000 then r1
              else
                let normalizedDirection =
                      (case BulletData.direction bulletData of
                         (x, y, z) \<Rightarrow> (x / dirLength', y / dirLength', z / dirLength'));
                    bullet = \<lparr>Bullet.id' = BulletData.id' bulletData,
                              Bullet.playerId = BulletData.playerId bulletData,
                              Bullet.position = BulletData.position bulletData,
                              Bullet.direction = normalizedDirection,
                              Bullet.weapon = BulletData.weapon bulletData,
                              startTime = now2, lastUpdateTime = now2, speed = 100,
                              damage = None\<rparr>;
                    r2 = r1\<lparr>bullets := AList.update (Bullet.id' bullet) bullet (bullets r1)\<rparr>
                in broadcast (BulletFired (Bullet.id' bullet) (Bullet.playerId bullet)
                     (Bullet.position bullet) (Bullet.direction bullet) (Bullet.weapon bullet)
                     (getWeaponSpeed (Bullet.weapon bullet))
                     (getWeaponDamage (Bullet.weapon bullet))) None r2)"

text \<open>The body of the hit branch of \<open>updateBullets\<close> (\<open>distance < 1.0\<close>), up to the
  \<open>break\<close>. \<open>setTimeout(..., 3000)\<close> is called during a tick that read the clock as
  \<open>now\<close>, so its callback cannot fire before \<open>now + 3000\<close>.\<close>

definition hitPlayer :: "int \<Rightarrow> Bullet \<Rightarrow> string \<Rightarrow> nat \<Rightarrow> GameRoom \<Rightarrow> GameRoom" where
  "hitPlayer now bullet pid ref r =
     (let damage' = (case damage bullet of
                       Some d \<Rightarrow> if d = 0 then getWeaponDamage (Bullet.weapon bullet) else d
                     | None \<Rightarrow> getWeaponDamage (Bullet.weapon bullet));
          r1 = modObj ref (\<lambda>p. p\<lparr>GamePlayer.health := GamePlayer.health p - damage'\<rparr>) r;
          r2 = broadcast (PlayerHit pid damage' (Bullet.weapon bullet) (Bullet.id' bullet)) None r1
      in if GamePlayer.health (obj r2 ref) \<le> 0 then
           let r3 = modObj ref (\<lambda>p. p\<lparr>isAlive := False\<rparr>) r2;
               shooter = map_of (players r3) (Bullet.playerId bullet);
               r4 = (case shooter of
                       Some sref \<Rightarrow>
                         if team (obj r3 sref) \<noteq> team (obj r3 ref) then
                           if \<not> gameEnded r3 then
                             let r3a = modObj sref (\<lambda>p. p\<lparr>score := score p + 100\<rparr>) r3;
                                 st = team (obj r3a sref);
                                 r3b = r3a\<lparr>teamScores := (teamScores r3a)(st := teamScores r3a st + 1)\<rparr>;
                                 r3c = broadcast (TeamScoresUpdate (teamScores r3b red)
                                          (teamScores r3b blue)) None r3b
                             in checkForVictory r3c
                           else r3
                         else r3
                     | None \<Rightarrow> r3);
               shooterName = (case shooter of
                                Some sref \<Rightarrow>
                                  if GamePlayer.name (obj r4 sref) = [] then ''Unknown''
                                  else GamePlayer.name (obj r4 sref)
                              | None \<Rightarrow> ''Unknown'');
               r5 = broadcast (PlayerEliminated pid (GamePlayer.name (obj r4 ref))
                      (Bullet.playerId bullet) shooterName (Bullet.weapon bullet)) None r4
           in r5\<lparr>timers := timers r5 @ [(now + 3000, pid, ref)]\<rparr>
         else r2)"

definition distance :: "vec3 \<Rightarrow> vec3 \<Rightarrow> real" where
  "distance a b = (case a of (ax, ay, az) \<Rightarrow> case b of (bx, by, bz) \<Rightarrow>
     (let dx = ax - bx; dy = ay - by; dz = az - bz in sqrt (dx * dx + dy * dy + dz * dz)))"

text \<open>The \<open>for ... of this.players\<close> loop of \<open>updateBullets\<close> for one bullet: the
  result says whether the bullet hit (the loop ended by \<open>break\<close>).\<close>

fun scanPlayers :: "int \<Rightarrow> Bullet \<Rightarrow> (string \<times> nat) list \<Rightarrow> GameRoom \<Rightarrow> bool \<times> GameRoom" where
  "scanPlayers now bullet [] r = (False, r)"
| "scanPlayers now bullet ((pid, ref) # ps) r =
     (if pid = Bullet.playerId bullet \<or> \<not> isAlive (obj r ref) then scanPlayers now bullet ps r
      else
        let shooterTeam = (case map_of (players r) (Bullet.playerId bullet) of
                             Some sref \<Rightarrow> team (obj r sref)
                           | None \<Rightarrow> red)
        in if shooterTeam = team (obj r ref) then scanPlayers now bullet ps r
           else if distance (Bullet.position bullet) (GamePlayer.position (obj r ref)) < 1
                then (True, hitPlayer now bullet pid ref r)
                else scanPlayers now bullet ps r)"

text \<open>One bullet of the tick: the body of \<open>this.bullets.forEach\<close>.\<close>

definition moveBullet :: "int \<Rightarrow> Bullet \<Rightarrow> Bullet" where
  "moveBullet now bullet =
     (let deltaTime = real_of_int (now - lastUpdateTime bullet) / 1000 in
      case Bullet.position bullet of (px, py, pz) \<Rightarrow>
      case Bullet.direction bullet of (dx, dy, dz) \<Rightarrow>
        bullet\<lparr>Bullet.position := (px + dx * speed bullet * deltaTime,
                                    py + dy * speed bullet * deltaTime,
                                    pz + dz * speed bullet * deltaTime),
               lastUpdateTime := now\<rparr>)"

definition updateBullet :: "int \<Rightarrow> string \<Rightarrow> Bullet \<Rightarrow> GameRoom \<times> string list \<Rightarrow> GameRoom \<times> string list" where
  "updateBullet now bulletId bullet st =
     (case st of (r, bulletsToRemove) \<Rightarrow>
        let elapsed = now - startTime bullet in
        if elapsed > 3000 then (r, bulletsToRemove @ [bulletId])
        else
          let bullet' = moveBullet now bullet;
              r1 = r\<lparr>bullets := AList.update bulletId bullet' (bullets r)\<rparr>
          in case scanPlayers now bullet' (players r1) r1 of
               (bulletHit, r2) \<Rightarrow>
                 if bulletHit then (r2, bulletsToRemove @ [bulletId]) else (r2, bulletsToRemove))"

fun scanBullets :: "int \<Rightarrow> (string \<times> Bullet) list \<Rightarrow> GameRoom \<times> string list \<Rightarrow> GameRoom \<times> string list" where
  "scanBullets now [] st = st"
| "scanBullets now ((bulletId, bullet) # bs) st = scanBullets now bs (updateBullet now bulletId bullet st)"

fun removeBullets :: "string list \<Rightarrow> GameRoom \<Rightarrow> GameRoom" where
  "removeBullets [] r = r"
| "removeBullets (bulletId # ids) r =
     removeBullets ids (r\<lparr>bullets := AList.delete bulletId (bullets r)\<rparr>)"

definition updateBullets :: "int \<Rightarrow> GameRoom \<Rightarrow> GameRoom" where
  "updateBullets now r =
     (case scanBullets now (bullets r) (r, []) of
        (r1, bulletsToRemove) \<Rightarrow> removeBullets bulletsToRemove r1)"

definition updateBots :: "GameRoom \<Rightarrow> GameRoom" where
  "updateBots r = r"

definition update :: "int \<Rightarrow> GameRoom \<Rightarrow> GameRoom" where
  "update now r = updateBots (updateBullets now r)"

definition getSpawnPoints :: "vec3 list" where
  "getSpawnPoints =
     [(10, 0.9, 10), (-10, 0.9, 10), (10, 0.9, -10), (-10, 0.9, -10), (0, 0.9, 15),
      (0, 0.9, -15), (15, 0.9, 0), (-15, 0.9, 0), (25, 0.9, 5), (-25, 0.9, -5)]"

text \<open>\<open>rnd\<close> is the value of \<open>Math.random()\<close>, in \<open>[0, 1)\<close>.\<close>

definition getRandomSpawnPoint :: "real \<Rightarrow> vec3" where
  "getRandomSpawnPoint rnd =
     (let spawnPoints = getSpawnPoints
      in spawnPoints ! nat \<lfloor>rnd * real (length spawnPoints)\<rfloor>)"

text \<open>The callback given to \<open>setTimeout\<close>: \<open>pid\<close> and \<open>ref\<close> are the \<open>playerId\<close> and
  the \<open>player\<close> object of the iteration that scheduled it.\<close>

definition respawn :: "real \<Rightarrow> string \<Rightarrow> nat \<Rightarrow> GameRoom \<Rightarrow> GameRoom" where
  "respawn rnd pid ref r =
     (if map_of (players r) pid \<noteq> None then
        let r1 = modObj ref (\<lambda>p. p\<lparr>GamePlayer.health := 100\<rparr>) r;
            r2 = modObj ref (\<lambda>p. p\<lparr>isAlive := True\<rparr>) r1;
            r3 = modObj ref (\<lambda>p. p\<lparr>GamePlayer.position := getRandomSpawnPoint rnd\<rparr>) r2
        in broadcast (PlayerRespawned pid (GamePlayer.position (obj r3 ref))) None r3
      else r)"

text \<open>The event loop runs the oldest pending callback once its delay has passed, at
  clock reading \<open>now\<close>; before that nothing happens.\<close>

definition fireTimer :: "int \<Rightarrow> real \<Rightarrow> GameRoom \<Rightarrow> GameRoom" where
  "fireTimer now rnd r =
     (case timers r of
        [] \<Rightarrow> r
      | (due, pid, ref) # ts \<Rightarrow>
          if now < due then r else respawn rnd pid ref (r\<lparr>timers := ts\<rparr>))"

definition getPlayerCount :: "GameRoom \<Rightarrow> nat" where
  "getPlayerCount r = length (players r)"

definition getCode :: "GameRoom \<Rightarrow> string" where
  "getCode r = code r"

text \<open>Everything that can happen to a room: its public methods and its timer.\<close>

datatype RoomOp =
    AddPlayer Player
  | RemovePlayer string
  | BroadcastPlayerUpdate Player
  | HandleBullet int int BulletData
  | Update int
  | FireTimer int real

fun roomStep :: "RoomOp \<Rightarrow> GameRoom \<Rightarrow> GameRoom" where
  "roomStep (AddPlayer p) r = addPlayer p r"
| "roomStep (RemovePlayer pid) r = removePlayer pid r"
| "roomStep (BroadcastPlayerUpdate p) r = broadcastPlayerUpdate p r"
| "roomStep (HandleBullet now now2 bd) r = handleBullet now now2 bd r"
| "roomStep (Update now) r = update now r"
| "roomStep (FireTimer now rnd) r = fireTimer now rnd r"

fun roomRun :: "RoomOp list \<Rightarrow> GameRoom \<Rightarrow> GameRoom" where
  "roomRun [] r = r"
| "roomRun (op # ops) r = roomRun ops (roomStep op r)"

section \<open>GameServer\<close>

text \<open>Inbound messages after \<open>JSON.parse\<close>, by their \<open>type\<close>; a missing
  \<open>playerName\<close> is \<open>None\<close>.\<close>

datatype ClientMsg =
    CreateRoomMsg "string option"
  | JoinRoomMsg string "string option"
  | PlayerUpdateMsg vec3 vec3 real
  | BulletFiredMsg string vec3 vec3 string
  | UnknownMsg string

text \<open>\<open>sent\<close> collects what the server itself sends on a socket.\<close>

record GameServer =
  players :: "(nat \<times> Player) list"
  rooms :: "(string \<times> GameRoom) list"
  playerCounter :: nat
  sent :: "(nat \<times> Msg) list"

definition newGameServer :: GameServer where
  "newGameServer = \<lparr>GameServer.players = [], rooms = [], playerCounter = 0, sent = []\<rparr>"

text \<open>The decimal digits of a number, as a template string prints it.\<close>

fun decimal :: "nat \<Rightarrow> string" where
  "decimal n =
     (if n < 10 then [''0123456789'' ! n]
      else decimal (n div 10) @ [''0123456789'' ! (n mod 10)])"

text \<open>\<open>a || b\<close> on strings that may be missing: the empty string is falsy too.\<close>

definition orElse :: "string option \<Rightarrow> string \<Rightarrow> string" where
  "orElse a b = (case a of None \<Rightarrow> b | Some x \<Rightarrow> if x = [] then b else x)"

definition handleConnection :: "nat \<Rightarrow> GameServer \<Rightarrow> GameServer" where
  "handleConnection sock s =
     (let s1 = s\<lparr>playerCounter := playerCounter s + 1\<rparr>;
          playerId' = ''player_'' @ decimal (playerCounter s1);
          colors = [''#ff4444'', ''#44ff44'', ''#4444ff'', ''#ffff44'', ''#ff44ff'', ''#44ffff''];
          player = \<lparr>Player.id' = playerId',
                    Player.name = ''Player '' @ decimal (playerCounter s1),
                    Player.ws = sock, Player.position = (0, 0.9, 0),
                    Player.rotation = (0, 0, 0), Player.health = 100,
                    Player.color = colors ! (playerCounter s1 mod length colors),
                    roomId = None\<rparr>
      in s1\<lparr>GameServer.players := AList.update sock player (GameServer.players s1)\<rparr>)"

definition handleDisconnection :: "nat \<Rightarrow> GameServer \<Rightarrow> GameServer" where
  "handleDisconnection sock s =
     (case map_of (GameServer.players s) sock of
        None \<Rightarrow> s
      | Some player \<Rightarrow>
          let s1 = (case roomId player of
                      None \<Rightarrow> s
                    | Some rid \<Rightarrow>
                        if rid = [] then s
                        else (case map_of (rooms s) rid of
                                None \<Rightarrow> s
                              | Some room \<Rightarrow>
                                  let room' = removePlayer (Player.id' player) room;
                                      s' = s\<lparr>rooms := AList.update rid room' (rooms s)\<rparr>
                                  in if getPlayerCount room' = 0
                                     then s'\<lparr>rooms := AList.delete rid (rooms s')\<rparr>
                                     else s'))
          in s1\<lparr>GameServer.players := AList.delete sock (GameServer.players s1)\<rparr>)"

text \<open>\<open>rnds\<close> are the six values of \<open>Math.random()\<close> that the loop consumes.\<close>

definition generateRoomCode :: "real list \<Rightarrow> string" where
  "generateRoomCode rnds =
     (let chars = ''ABCDEFGHIJKLMNOPQRSTUVWXYZ0123456789''
      in map (\<lambda>x. chars ! nat \<lfloor>x * real (length chars)\<rfloor>) (take 6 rnds))"

definition handleCreateRoom :: "real list \<Rightarrow> nat \<Rightarrow> string option \<Rightarrow> GameServer \<Rightarrow> GameServer" where
  "handleCreateRoom rnds sock playerName s =
     (case map_of (GameServer.players s) sock of
        None \<Rightarrow> s
      | Some player0 \<Rightarrow>
          let roomCode = generateRoomCode rnds;
              room = newGameRoom roomCode;
              player1 = player0\<lparr>Player.name := orElse playerName (Player.name player0)\<rparr>;
              room' = addPlayer player1 room;
              player2 = player1\<lparr>roomId := Some roomCode\<rparr>;
              s1 = s\<lparr>GameServer.players := AList.update sock player2 (GameServer.players s),
                     rooms := AList.update roomCode room' (rooms s)\<rparr>
          in s1\<lparr>sent := sent s1 @ [(sock, RoomCreated roomCode (Player.id' player2))]\<rparr>)"

definition handleJoinRoom :: "nat \<Rightarrow> string \<Rightarrow> string option \<Rightarrow> GameServer \<Rightarrow> GameServer" where
  "handleJoinRoom sock code' playerName s =
     (case map_of (GameServer.players s) sock of
        None \<Rightarrow> s
      | Some player0 \<Rightarrow>
          (case map_of (rooms s) code' of
             None \<Rightarrow> s\<lparr>sent := sent s @ [(sock, Error ''Room not found'')]\<rparr>
           | Some room \<Rightarrow>
               if getPlayerCount room \<ge> 8
               then s\<lparr>sent := sent s @ [(sock, Error ''Room is full'')]\<rparr>
               else
                 let player1 = player0\<lparr>Player.name := orElse playerName (Player.name player0)\<rparr>;
                     room' = addPlayer player1 room;
                     player2 = player1\<lparr>roomId := Some code'\<rparr>;
                     s1 = s\<lparr>GameServer.players := AList.update sock player2 (GameServer.players s),
                            rooms := AList.update code' room' (rooms s)\<rparr>
                 in s1\<lparr>sent := sent s1 @ [(sock, RoomJoined (Player.id' player2))]\<rparr>))"

text \<open>\<open>!player.roomId\<close>: a missing or empty room code.\<close>

definition noRoom :: "Player \<Rightarrow> bool" where
  "noRoom player = (case roomId player of None \<Rightarrow> True | Some rid \<Rightarrow> rid = [])"

definition handlePlayerUpdate :: "nat \<Rightarrow> vec3 \<Rightarrow> vec3 \<Rightarrow> real \<Rightarrow> GameServer \<Rightarrow> GameServer" where
  "handlePlayerUpdate sock pos rot hp s =
     (case map_of (GameServer.players s) sock of
        None \<Rightarrow> s
      | Some player0 \<Rightarrow>
          if noRoom player0 then s
          else
            let player1 = player0\<lparr>Player.position := pos, Player.rotation := rot,
                                   Player.health := hp\<rparr>;
                s1 = s\<lparr>GameServer.players := AList.update sock player1 (GameServer.players s)\<rparr>
            in case map_of (rooms s1) (the (roomId player1)) of
                 None \<Rightarrow> s1
               | Some room \<Rightarrow>
                   s1\<lparr>rooms := AList.update (the (roomId player1))
                                  (broadcastPlayerUpdate player1 room) (rooms s1)\<rparr>)"

definition handleBulletFired ::
    "int \<Rightarrow> int \<Rightarrow> nat \<Rightarrow> string \<Rightarrow> vec3 \<Rightarrow> vec3 \<Rightarrow> string \<Rightarrow> GameServer \<Rightarrow> GameServer" where
  "handleBulletFired now now2 sock bid pos dir w s =
     (case map_of (GameServer.players s) sock of
        None \<Rightarrow> s
      | Some player \<Rightarrow>
          if noRoom player then s
          else (case map_of (rooms s) (the (roomId player)) of
                  None \<Rightarrow> s
                | Some room \<Rightarrow>
                    s\<lparr>rooms := AList.update (the (roomId player))
                        (handleBullet now now2
                           \<lparr>BulletData.id' = bid, BulletData.playerId = Player.id' player,
                            BulletData.position = pos, BulletData.direction = dir,
                            BulletData.weapon = w\<rparr> room) (rooms s)\<rparr>))"

text \<open>The environment of one message: the random numbers and the two clock readings
  its handler may consume.\<close>

definition handleMessage ::
    "real list \<Rightarrow> int \<Rightarrow> int \<Rightarrow> nat \<Rightarrow> ClientMsg \<Rightarrow> GameServer \<Rightarrow> GameServer" where
  "handleMessage rnds now now2 sock message s =
     (case map_of (GameServer.players s) sock of
        None \<Rightarrow> s
      | Some player \<Rightarrow>
          (case message of
             CreateRoomMsg playerName \<Rightarrow> handleCreateRoom rnds sock playerName s
           | JoinRoomMsg code' playerName \<Rightarrow> handleJoinRoom sock code' playerName s
           | PlayerUpdateMsg pos rot hp \<Rightarrow> handlePlayerUpdate sock pos rot hp s
           | BulletFiredMsg bid pos dir w \<Rightarrow> handleBulletFired now now2 sock bid pos dir w s
           | UnknownMsg t \<Rightarrow> s))"

definition updateAllRooms :: "int \<Rightarrow> GameServer \<Rightarrow> GameServer" where
  "updateAllRooms now s = s\<lparr>rooms := map (\<lambda>(c, room). (c, update now room)) (rooms s)\<rparr>"

datatype ServerOp =
    Connect nat
  | Disconnect nat
  | Message "real list" int int nat ClientMsg
  | Tick int

fun serverStep :: "ServerOp \<Rightarrow> GameServer \<Rightarrow> GameServer" where
  "serverStep (Connect sock) s = handleConnection sock s"
| "serverStep (Disconnect sock) s = handleDisconnection sock s"
| "serverStep (Message rnds now now2 sock m) s = handleMessage rnds now now2 sock m s"
| "serverStep (Tick now) s = updateAllRooms now s"

fun serverRun :: "ServerOp list \<Rightarrow> GameServer \<Rightarrow> GameServer" where
  "serverRun [] s = s"
| "serverRun (op # ops) s = serverRun ops (serverStep op s)"

text \<open>The rooms whose player map holds a given player id.\<close>

definition roomsOf :: "GameServer \<Rightarrow> string \<Rightarrow> string list" where
  "roomsOf s pid = map fst (filter (\<lambda>(c, room). map_of (GameRoom.players room) pid \<noteq> None) (rooms s))"

section \<open>Notions used in the properties\<close>

fun isVictoryBroadcast :: "Event \<Rightarrow> bool" where
  "isVictoryBroadcast (Broadcast (TeamVictory w a b m) e) = True"
| "isVictoryBroadcast _ = False"

definition victoryCount :: "Event list \<Rightarrow> nat" where
  "victoryCount evs = length (filter isVictoryBroadcast evs)"

definition wfPlayers :: "GameRoom \<Rightarrow> bool" where
  "wfPlayers r \<longleftrightarrow>
     distinct (map fst (GameRoom.players r)) \<and> distinct (map snd (GameRoom.players r)) \<and>
     (\<forall>ref \<in> snd ` set (GameRoom.players r). ref < nextRef r)"



subsection \<open>Concrete states\<close>

text \<open>Players as \<open>handleConnection\<close> creates them, and rooms built from them.\<close>

definition player1 :: Player where
  "player1 = \<lparr>Player.id' = ''player_1'', Player.name = ''Player 1'', Player.ws = 1,
     Player.position = (0, 0.9, 0), Player.rotation = (0, 0, 0), Player.health = 100,
     Player.color = ''#44ff44'', roomId = None\<rparr>"

definition player2 :: Player where
  "player2 = \<lparr>Player.id' = ''player_2'', Player.name = ''Player 2'', Player.ws = 2,
     Player.position = (0, 0.9, 0), Player.rotation = (0, 0, 0), Player.health = 100,
     Player.color = ''#4444ff'', roomId = None\<rparr>"

definition player3 :: Player where
  "player3 = \<lparr>Player.id' = ''player_3'', Player.name = ''Player 3'', Player.ws = 3,
     Player.position = (0, 0.9, 0), Player.rotation = (0, 0, 0), Player.health = 100,
     Player.color = ''#ffff44'', roomId = None\<rparr>"

definition twoPlayers :: GameRoom where
  "twoPlayers = roomRun [AddPlayer player1, AddPlayer player2] (newGameRoom ''ABCDEF'')"

text \<open>The state inside a tick just after red's counter was raised to the limit, and
  the state after the victory check that follows.\<close>

definition limitReached :: GameRoom where
  "limitReached = twoPlayers\<lparr>teamScores := (teamScores twoPlayers)(red := 50)\<rparr>"

definition endedRoom :: GameRoom where
  "endedRoom = checkForVictory limitReached"

definition pistolShot :: BulletData where
  "pistolShot = \<lparr>BulletData.id' = ''b1'', BulletData.playerId = ''player_1'',
     BulletData.position = (0, 0.9, 0), BulletData.direction = (0, 0, 2),
     BulletData.weapon = ''pistol''\<rparr>"

definition zeroShot :: BulletData where
  "zeroShot = \<lparr>BulletData.id' = ''b0'', BulletData.playerId = ''player_1'',
     BulletData.position = (0, 0.9, 0), BulletData.direction = (0, 0, 0),
     BulletData.weapon = ''pistol''\<rparr>"

fun isFiredBy :: "string \<Rightarrow> Event \<Rightarrow> bool" where
  "isFiredBy p (Broadcast (BulletFired bid pid pos dir w s d) e) = (pid = p)"
| "isFiredBy p _ = False"

definition firedBy :: "string \<Rightarrow> Event list \<Rightarrow> nat" where
  "firedBy p evs = length (filter (isFiredBy p) evs)"




lemma broadcast_simps [simp]:
  "GameRoom.players (broadcast m e r) = GameRoom.players r"
  "objects (broadcast m e r) = objects r"
  "nextRef (broadcast m e r) = nextRef r"
  "bullets (broadcast m e r) = bullets r"
  "teamScores (broadcast m e r) = teamScores r"
  "scoreLimit (broadcast m e r) = scoreLimit r"
  "gameEnded (broadcast m e r) = gameEnded r"
  "timers (broadcast m e r) = timers r"
  "code (broadcast m e r) = code r"
  "outbox (broadcast m e r) = outbox r @ [Broadcast m e]"
  "obj (broadcast m e r) = obj r"
  by (simp_all add: broadcast_def obj_def fun_eq_iff)

lemma send_simps [simp]:
  "GameRoom.players (send p m r) = GameRoom.players r"
  "objects (send p m r) = objects r"
  "nextRef (send p m r) = nextRef r"
  "bullets (send p m r) = bullets r"
  "teamScores (send p m r) = teamScores r"
  "scoreLimit (send p m r) = scoreLimit r"
  "gameEnded (send p m r) = gameEnded r"
  "timers (send p m r) = timers r"
  "code (send p m r) = code r"
  "outbox (send p m r) = outbox r @ [Send p m]"
  "obj (send p m r) = obj r"
  by (simp_all add: send_def obj_def fun_eq_iff)

lemma modObj_simps [simp]:
  "GameRoom.players (modObj ref f r) = GameRoom.players r"
  "nextRef (modObj ref f r) = nextRef r"
  "bullets (modObj ref f r) = bullets r"
  "teamScores (modObj ref f r) = teamScores r"
  "scoreLimit (modObj ref f r) = scoreLimit r"
  "gameEnded (modObj ref f r) = gameEnded r"
  "timers (modObj ref f r) = timers r"
  "code (modObj ref f r) = code r"
  "outbox (modObj ref f r) = outbox r"
  "obj (modObj ref f r) ref' = (if ref' = ref then f (obj r ref) else obj r ref')"
  by (simp_all add: modObj_def obj_def)

lemma obj_upd_simps [simp]:
  "obj (r\<lparr>teamScores := ts\<rparr>) = obj r"
  "obj (r\<lparr>gameEnded := g\<rparr>) = obj r"
  "obj (r\<lparr>timers := tm\<rparr>) = obj r"
  "obj (r\<lparr>bullets := bs\<rparr>) = obj r"
  "obj (r\<lparr>outbox := ob\<rparr>) = obj r"
  "obj (r\<lparr>GameRoom.players := ps\<rparr>) = obj r"
  by (simp_all add: obj_def fun_eq_iff)

lemma awardBonus_frame [simp]:
  "GameRoom.players (awardBonus w ps r) = GameRoom.players r"
  "nextRef (awardBonus w ps r) = nextRef r"
  "bullets (awardBonus w ps r) = bullets r"
  "teamScores (awardBonus w ps r) = teamScores r"
  "scoreLimit (awardBonus w ps r) = scoreLimit r"
  "gameEnded (awardBonus w ps r) = gameEnded r"
  "timers (awardBonus w ps r) = timers r"
  "code (awardBonus w ps r) = code r"
  "outbox (awardBonus w ps r) = outbox r"
  by (induction w ps r rule: awardBonus.induct; simp)+

lemma checkForVictory_frame [simp]:
  "GameRoom.players (checkForVictory r) = GameRoom.players r"
  "nextRef (checkForVictory r) = nextRef r"
  "bullets (checkForVictory r) = bullets r"
  "teamScores (checkForVictory r) = teamScores r"
  "scoreLimit (checkForVictory r) = scoreLimit r"
  "timers (checkForVictory r) = timers r"
  "code (checkForVictory r) = code r"
  by (simp_all add: checkForVictory_def Let_def split: option.splits)

lemma checkForVictory_ended:
  "gameEnded (checkForVictory r) = (gameEnded r \<or> teamScores r red \<ge> scoreLimit r \<or> teamScores r blue \<ge> scoreLimit r)"
  by (simp add: checkForVictory_def Let_def split: option.splits)

lemma hitPlayer_frame [simp]:
  "GameRoom.players (hitPlayer now b pid ref r) = GameRoom.players r"
  "nextRef (hitPlayer now b pid ref r) = nextRef r"
  "bullets (hitPlayer now b pid ref r) = bullets r"
  "scoreLimit (hitPlayer now b pid ref r) = scoreLimit r"
  "code (hitPlayer now b pid ref r) = code r"
  by (simp_all add: hitPlayer_def Let_def split: option.splits)

lemma hitPlayer_scores:
  "teamScores r t \<le> teamScores (hitPlayer now b pid ref r) t"
  "gameEnded r \<Longrightarrow> teamScores (hitPlayer now b pid ref r) = teamScores r"
  "gameEnded r \<Longrightarrow> gameEnded (hitPlayer now b pid ref r)"
  by (simp_all add: hitPlayer_def Let_def checkForVictory_ended split: option.splits)

lemma scanPlayers_frame [simp]:
  "GameRoom.players (snd (scanPlayers now b ps r)) = GameRoom.players r"
  "nextRef (snd (scanPlayers now b ps r)) = nextRef r"
  "bullets (snd (scanPlayers now b ps r)) = bullets r"
  "scoreLimit (snd (scanPlayers now b ps r)) = scoreLimit r"
  "code (snd (scanPlayers now b ps r)) = code r"
  by (induction now b ps r rule: scanPlayers.induct; simp add: Let_def)+

lemma scanPlayers_scores:
  "teamScores r t \<le> teamScores (snd (scanPlayers now b ps r)) t"
  "gameEnded r \<Longrightarrow> teamScores (snd (scanPlayers now b ps r)) = teamScores r"
  "gameEnded r \<Longrightarrow> gameEnded (snd (scanPlayers now b ps r))"
  by (induction now b ps r rule: scanPlayers.induct; simp add: Let_def hitPlayer_scores)+


lemma updateBullet_fst:
  "fst (updateBullet now k b (r, rem)) =
     (if now - startTime b > 3000 then r
      else snd (scanPlayers now (moveBullet now b) (GameRoom.players r)
                  (r\<lparr>bullets := AList.update k (moveBullet now b) (bullets r)\<rparr>)))"
  by (simp add: updateBullet_def Let_def split: prod.splits)

lemma updateBullet_snd:
  "snd (updateBullet now k b (r, rem)) =
     (if now - startTime b > 3000 then rem @ [k]
      else if fst (scanPlayers now (moveBullet now b) (GameRoom.players r)
                  (r\<lparr>bullets := AList.update k (moveBullet now b) (bullets r)\<rparr>))
           then rem @ [k] else rem)"
  by (simp add: updateBullet_def Let_def split: prod.splits)

lemma updateBullet_scores:
  "teamScores r t \<le> teamScores (fst (updateBullet now k b (r, rem))) t"
  "gameEnded r \<Longrightarrow> teamScores (fst (updateBullet now k b (r, rem))) = teamScores r"
  "gameEnded r \<Longrightarrow> gameEnded (fst (updateBullet now k b (r, rem)))"
  using scanPlayers_scores(1)[of "r\<lparr>bullets := AList.update k (moveBullet now b) (bullets r)\<rparr>" t now "moveBullet now b" "GameRoom.players r"]
        scanPlayers_scores(2)[of "r\<lparr>bullets := AList.update k (moveBullet now b) (bullets r)\<rparr>" now "moveBullet now b" "GameRoom.players r"]
        scanPlayers_scores(3)[of "r\<lparr>bullets := AList.update k (moveBullet now b) (bullets r)\<rparr>" now "moveBullet now b" "GameRoom.players r"]
  by (simp_all add: updateBullet_fst)

lemma scanBullets_mono: "teamScores (fst st) t \<le> teamScores (fst (scanBullets now bs st)) t"
proof (induction now bs st rule: scanBullets.induct)
  case (1 now st)
  show ?case by simp
next
  case (2 now bulletId bullet bs st)
  obtain r rem where st: "st = (r, rem)" by (cases st)
  have "teamScores r t \<le> teamScores (fst (updateBullet now bulletId bullet st)) t"
    unfolding st by (rule updateBullet_scores(1))
  with "2.IH" show ?case by (simp add: st)
qed

lemma scanBullets_ended:
  "gameEnded (fst st) \<Longrightarrow>
     teamScores (fst (scanBullets now bs st)) = teamScores (fst st) \<and>
     gameEnded (fst (scanBullets now bs st))"
proof (induction now bs st rule: scanBullets.induct)
  case (1 now st)
  then show ?case by simp
next
  case (2 now bulletId bullet bs st)
  obtain r rem where st: "st = (r, rem)" by (cases st)
  from "2.prems" have e: "gameEnded r" by (simp add: st)
  have "teamScores (fst (updateBullet now bulletId bullet st)) = teamScores r"
       "gameEnded (fst (updateBullet now bulletId bullet st))"
    unfolding st using e by (rule updateBullet_scores(2), rule updateBullet_scores(3))
  with "2.IH" show ?case by (simp add: st)
qed

lemma removeBullets_frame [simp]:
  "GameRoom.players (removeBullets ids r) = GameRoom.players r"
  "nextRef (removeBullets ids r) = nextRef r"
  "objects (removeBullets ids r) = objects r"
  "teamScores (removeBullets ids r) = teamScores r"
  "scoreLimit (removeBullets ids r) = scoreLimit r"
  "gameEnded (removeBullets ids r) = gameEnded r"
  "timers (removeBullets ids r) = timers r"
  "code (removeBullets ids r) = code r"
  "outbox (removeBullets ids r) = outbox r"
  by (induction ids r rule: removeBullets.induct; simp)+

lemma updateBullets_eq:
  "updateBullets now r =
     removeBullets (snd (scanBullets now (bullets r) (r, []))) (fst (scanBullets now (bullets r) (r, [])))"
  by (simp add: updateBullets_def case_prod_unfold)

lemma update_scores:
  "teamScores r t \<le> teamScores (update now r) t"
  "gameEnded r \<Longrightarrow> teamScores (update now r) = teamScores r"
  "gameEnded r \<Longrightarrow> gameEnded (update now r)"
  using scanBullets_mono[of "(r, [])" t now "bullets r"] scanBullets_ended[of "(r, [])" now "bullets r"]
  by (simp_all add: update_def updateBots_def updateBullets_eq)

lemma sendRoster_frame [simp]:
  "GameRoom.players (sendRoster n ps r) = GameRoom.players r"
  "nextRef (sendRoster n ps r) = nextRef r"
  "objects (sendRoster n ps r) = objects r"
  "bullets (sendRoster n ps r) = bullets r"
  "teamScores (sendRoster n ps r) = teamScores r"
  "scoreLimit (sendRoster n ps r) = scoreLimit r"
  "gameEnded (sendRoster n ps r) = gameEnded r"
  "timers (sendRoster n ps r) = timers r"
  "code (sendRoster n ps r) = code r"
  by (induction n ps r rule: sendRoster.induct; simp add: Let_def)+

lemma addPlayer_frame [simp]:
  "bullets (addPlayer p r) = bullets r"
  "teamScores (addPlayer p r) = teamScores r"
  "scoreLimit (addPlayer p r) = scoreLimit r"
  "gameEnded (addPlayer p r) = gameEnded r"
  "timers (addPlayer p r) = timers r"
  "code (addPlayer p r) = code r"
  "nextRef (addPlayer p r) = nextRef r + 1"
  "GameRoom.players (addPlayer p r) = AList.update (Player.id' p) (nextRef r) (GameRoom.players r)"
  by (simp_all add: addPlayer_def Let_def)

lemma removePlayer_frame [simp]:
  "bullets (removePlayer p r) = bullets r"
  "teamScores (removePlayer p r) = teamScores r"
  "scoreLimit (removePlayer p r) = scoreLimit r"
  "gameEnded (removePlayer p r) = gameEnded r"
  "timers (removePlayer p r) = timers r"
  "code (removePlayer p r) = code r"
  "nextRef (removePlayer p r) = nextRef r"
  "objects (removePlayer p r) = objects r"
  "GameRoom.players (removePlayer p r) = AList.delete p (GameRoom.players r)"
  by (simp_all add: removePlayer_def delete_notin_dom map_of_eq_None_iff delete_id split: option.splits)

lemma broadcastPlayerUpdate_frame [simp]:
  "bullets (broadcastPlayerUpdate p r) = bullets r"
  "teamScores (broadcastPlayerUpdate p r) = teamScores r"
  "scoreLimit (broadcastPlayerUpdate p r) = scoreLimit r"
  "gameEnded (broadcastPlayerUpdate p r) = gameEnded r"
  "timers (broadcastPlayerUpdate p r) = timers r"
  "code (broadcastPlayerUpdate p r) = code r"
  "nextRef (broadcastPlayerUpdate p r) = nextRef r"
  "GameRoom.players (broadcastPlayerUpdate p r) = GameRoom.players r"
  by (simp_all add: broadcastPlayerUpdate_def split: option.splits)

lemma handleBullet_frame [simp]:
  "teamScores (handleBullet now now2 bd r) = teamScores r"
  "scoreLimit (handleBullet now now2 bd r) = scoreLimit r"
  "gameEnded (handleBullet now now2 bd r) = gameEnded r"
  "timers (handleBullet now now2 bd r) = timers r"
  "code (handleBullet now now2 bd r) = code r"
  "nextRef (handleBullet now now2 bd r) = nextRef r"
  "GameRoom.players (handleBullet now now2 bd r) = GameRoom.players r"
  by (simp_all add: handleBullet_def Let_def split: option.splits)

lemma respawn_frame [simp]:
  "bullets (respawn rnd pid ref r) = bullets r"
  "teamScores (respawn rnd pid ref r) = teamScores r"
  "scoreLimit (respawn rnd pid ref r) = scoreLimit r"
  "gameEnded (respawn rnd pid ref r) = gameEnded r"
  "timers (respawn rnd pid ref r) = timers r"
  "code (respawn rnd pid ref r) = code r"
  "nextRef (respawn rnd pid ref r) = nextRef r"
  "GameRoom.players (respawn rnd pid ref r) = GameRoom.players r"
  by (simp_all add: respawn_def Let_def)

lemma fireTimer_frame [simp]:
  "bullets (fireTimer now rnd r) = bullets r"
  "teamScores (fireTimer now rnd r) = teamScores r"
  "scoreLimit (fireTimer now rnd r) = scoreLimit r"
  "gameEnded (fireTimer now rnd r) = gameEnded r"
  "code (fireTimer now rnd r) = code r"
  "nextRef (fireTimer now rnd r) = nextRef r"
  "GameRoom.players (fireTimer now rnd r) = GameRoom.players r"
  by (simp_all add: fireTimer_def split: list.splits)

lemma victoryCount_simps [simp]:
  "victoryCount [] = 0"
  "victoryCount (xs @ ys) = victoryCount xs + victoryCount ys"
  "victoryCount (e # xs) = (if isVictoryBroadcast e then 1 else 0) + victoryCount xs"
  by (simp_all add: victoryCount_def)

lemma awardBonus_obj:
  "team (obj (awardBonus w ps r) ref) = team (obj r ref)"
  by (induction w ps r rule: awardBonus.induct) simp_all












lemma sendRoster_victoryCount [simp]:
  "victoryCount (outbox (sendRoster n ps r)) = victoryCount (outbox r)"
  by (induction n ps r rule: sendRoster.induct) (simp_all add: Let_def)

lemma addPlayer_victoryCount [simp]:
  "victoryCount (outbox (addPlayer p r)) = victoryCount (outbox r)"
  by (simp add: addPlayer_def Let_def)

lemma removePlayer_victoryCount [simp]:
  "victoryCount (outbox (removePlayer p r)) = victoryCount (outbox r)"
  by (simp add: removePlayer_def split: option.splits)

lemma broadcastPlayerUpdate_victoryCount [simp]:
  "victoryCount (outbox (broadcastPlayerUpdate p r)) = victoryCount (outbox r)"
  by (simp add: broadcastPlayerUpdate_def split: option.splits)

lemma handleBullet_victoryCount [simp]:
  "victoryCount (outbox (handleBullet now now2 bd r)) = victoryCount (outbox r)"
  by (simp add: handleBullet_def Let_def split: option.splits)

lemma fireTimer_victoryCount [simp]:
  "victoryCount (outbox (fireTimer now rnd r)) = victoryCount (outbox r)"
  by (simp add: fireTimer_def respawn_def Let_def split: list.splits)


















lemma wfPlayers_cong:
  "GameRoom.players r' = GameRoom.players r \<Longrightarrow> nextRef r' = nextRef r \<Longrightarrow> wfPlayers r' = wfPlayers r"
  by (simp add: wfPlayers_def)

lemma scanBullets_frame [simp]:
  "GameRoom.players (fst (scanBullets now bs st)) = GameRoom.players (fst st)"
  "nextRef (fst (scanBullets now bs st)) = nextRef (fst st)"
  "scoreLimit (fst (scanBullets now bs st)) = scoreLimit (fst st)"
  "code (fst (scanBullets now bs st)) = code (fst st)"
proof (induction now bs st rule: scanBullets.induct)
  case (1 now st)
  { case 1 show ?case by simp }
  { case 2 show ?case by simp }
  { case 3 show ?case by simp }
  { case 4 show ?case by simp }
next
  case (2 now bulletId bullet bs st)
  obtain r rem where st: "st = (r, rem)" by (cases st)
  { case 1 show ?case using "2.IH"(1) by (simp add: st updateBullet_fst) }
  { case 2 show ?case using "2.IH"(2) by (simp add: st updateBullet_fst) }
  { case 3 show ?case using "2.IH"(3) by (simp add: st updateBullet_fst) }
  { case 4 show ?case using "2.IH"(4) by (simp add: st updateBullet_fst) }
qed

lemma update_frame [simp]:
  "GameRoom.players (update now r) = GameRoom.players r"
  "nextRef (update now r) = nextRef r"
  "scoreLimit (update now r) = scoreLimit r"
  "code (update now r) = code r"
  by (simp_all add: update_def updateBots_def updateBullets_eq)




lemmas shot_eval = handleBullet_def dirLength_def getWeaponSpeed_def getWeaponDamage_def
  pistolShot_def zeroShot_def

lemma firedBy_simps [simp]:
  "firedBy p [] = 0"
  "firedBy p (xs @ ys) = firedBy p xs + firedBy p ys"
  "firedBy p (e # xs) = (if isFiredBy p e then 1 else 0) + firedBy p xs"
  by (simp_all add: firedBy_def)

text \<open>the last-shot timestamp of an object and the shots counted for a player are
  untouched by the tick\<close>

lemma awardBonus_lst [simp]:
  "lastShotTime (obj (awardBonus w ps r) x) = lastShotTime (obj r x)"
  by (induction w ps r rule: awardBonus.induct) simp_all

lemma checkForVictory_lst [simp]:
  "lastShotTime (obj (checkForVictory r) x) = lastShotTime (obj r x)"
  "firedBy p (outbox (checkForVictory r)) = firedBy p (outbox r)"
  by (simp_all add: checkForVictory_def Let_def split: option.splits)

lemma hitPlayer_lst [simp]:
  "lastShotTime (obj (hitPlayer now b pid ref r) x) = lastShotTime (obj r x)"
  "firedBy p (outbox (hitPlayer now b pid ref r)) = firedBy p (outbox r)"
  by (simp_all add: hitPlayer_def Let_def split: option.splits)

lemma scanPlayers_lst [simp]:
  "lastShotTime (obj (snd (scanPlayers now b ps r)) x) = lastShotTime (obj r x)"
  "firedBy p (outbox (snd (scanPlayers now b ps r))) = firedBy p (outbox r)"
  by (induction now b ps r rule: scanPlayers.induct; simp add: Let_def)+

lemma scanBullets_lst [simp]:
  "lastShotTime (obj (fst (scanBullets now bs st)) x) = lastShotTime (obj (fst st) x)"
  "firedBy p (outbox (fst (scanBullets now bs st))) = firedBy p (outbox (fst st))"
proof (induction now bs st rule: scanBullets.induct)
  case (1 now st)
  { case 1 show ?case by simp }
  { case 2 show ?case by simp }
next
  case (2 now bulletId bullet bs st)
  obtain r rem where st: "st = (r, rem)" by (cases st)
  { case 1 show ?case using "2.IH"(1) by (simp add: st updateBullet_fst) }
  { case 2 show ?case using "2.IH"(2) by (simp add: st updateBullet_fst) }
qed

lemma removeBullets_obj [simp]: "obj (removeBullets ids r) = obj r"
  by (simp add: obj_def fun_eq_iff)

lemma update_lst [simp]:
  "lastShotTime (obj (update now r) x) = lastShotTime (obj r x)"
  "firedBy p (outbox (update now r)) = firedBy p (outbox r)"
  by (simp_all add: update_def updateBots_def updateBullets_eq)

lemma fireTimer_lst [simp]:
  "lastShotTime (obj (fireTimer now rnd r) x) = lastShotTime (obj r x)"
  "firedBy p (outbox (fireTimer now rnd r)) = firedBy p (outbox r)"
  by (simp_all add: fireTimer_def respawn_def Let_def split: list.splits prod.splits)

lemma broadcastPlayerUpdate_lst [simp]:
  "lastShotTime (obj (broadcastPlayerUpdate pl r) x) = lastShotTime (obj r x)"
  "firedBy p (outbox (broadcastPlayerUpdate pl r)) = firedBy p (outbox r)"
  by (simp_all add: broadcastPlayerUpdate_def split: option.splits)

lemma removePlayer_lst [simp]:
  "lastShotTime (obj (removePlayer q r) x) = lastShotTime (obj r x)"
  "firedBy p (outbox (removePlayer q r)) = firedBy p (outbox r)"
  by (simp_all add: removePlayer_def split: option.splits)

lemma sendRoster_firedBy [simp]:
  "firedBy p (outbox (sendRoster n ps r)) = firedBy p (outbox r)"
  by (induction n ps r rule: sendRoster.induct) (simp_all add: Let_def)

lemma sendRoster_obj [simp]: "obj (sendRoster n ps r) = obj r"
  by (simp add: obj_def fun_eq_iff)











section \<open>Properties\<close>

lemmas room_eval =
  newGameRoom_def addPlayer_def assignPlayerTeam_def getTeamColor_def send_def broadcast_def
  obj_def modObj_def checkForVictory_def victoryMessage_def Let_def
  player1_def player2_def player3_def twoPlayers_def limitReached_def endedRoom_def

text \<open>
  C2. In a room both team score counters never decrease under any operation (joining,
  leaving, a player update, a shot, a tick, a respawn timer), and once the game-ended
  flag is set no operation changes a counter any more; the flag itself stays set.
\<close>

theorem team_scores_monotone_then_frozen:
  "teamScores r t \<le> teamScores (roomStep op r) t \<and>
   (gameEnded r \<longrightarrow> teamScores (roomStep op r) = teamScores r \<and> gameEnded (roomStep op r))"
  by (cases op) (simp_all add: update_scores)

theorem team_scores_monotone_then_frozen_witness:
  "gameEnded endedRoom \<and>
   teamScores endedRoom red \<le> teamScores (roomStep (Update 1000) endedRoom) red \<and>
   teamScores (roomStep (Update 1000) endedRoom) = teamScores endedRoom \<and>
   gameEnded (roomStep (Update 1000) endedRoom)"
proof -
  have g: "gameEnded endedRoom" by (simp add: room_eval)
  from g team_scores_monotone_then_frozen[of endedRoom red "Update 1000"] show ?thesis by simp
qed



text \<open>
  C1. The claim is that the stored bullet carries the projectile speed of its weapon,
  the speed that \<open>bullet_fired\<close> announces. On an accepted pistol shot
  \<open>handleBullet\<close> stores the speed 100 and broadcasts \<open>getWeaponSpeed\<close> of the
  weapon, 80: the tick moves the bullet with a speed the clients were not told.
\<close>

theorem stored_speed_is_not_weapon_speed:
  "map (\<lambda>(k, b). (k, Bullet.weapon b, speed b)) (bullets (handleBullet 1000 1000 pistolShot twoPlayers))
     = [(''b1'', ''pistol'', 100)] \<and>
   last (outbox (handleBullet 1000 1000 pistolShot twoPlayers))
     = Broadcast (BulletFired ''b1'' ''player_1'' (0, 0.9, 0) (0, 0, 1) ''pistol'' 80 25) None \<and>
   getWeaponSpeed ''pistol'' = 80"
  by (simp add: room_eval shot_eval)

text \<open>
  C10. A shot of a player of the room that passes the 100 ms rate check sets the
  player's last-shot timestamp before the direction is examined. If the direction is
  then rejected (length at most \<open>1e-6\<close>), nothing is stored or sent, but the
  timestamp is the time of the rejected shot, and any shot of that player read less
  than 100 ms later is dropped as well.
\<close>

theorem zero_direction_consumes_rate_window:
  assumes "map_of (GameRoom.players r) (BulletData.playerId bd) = Some ref"
      and "\<not> now - lastShotTime (obj r ref) < 100"
      and "dirLength (BulletData.direction bd) \<le> 1 / 1000000"
      and "BulletData.playerId bd' = BulletData.playerId bd"
      and "now' - now < 100"
  shows "lastShotTime (obj (handleBullet now now2 bd r) ref) = now \<and>
         bullets (handleBullet now now2 bd r) = bullets r \<and>
         outbox (handleBullet now now2 bd r) = outbox r \<and>
         handleBullet now' now2' bd' (handleBullet now now2 bd r) = handleBullet now now2 bd r"
proof -
  have r1: "handleBullet now now2 bd r = modObj ref (\<lambda>p. p\<lparr>lastShotTime := now\<rparr>) r"
    using assms(1-3) by (simp add: handleBullet_def)
  have "handleBullet now' now2' bd' (modObj ref (\<lambda>p. p\<lparr>lastShotTime := now\<rparr>) r)
          = modObj ref (\<lambda>p. p\<lparr>lastShotTime := now\<rparr>) r"
    using assms(1,4,5) by (simp add: handleBullet_def)
  with r1 show ?thesis by simp
qed

theorem zero_direction_consumes_rate_window_witness:
  "map_of (GameRoom.players twoPlayers) (BulletData.playerId zeroShot) = Some 0 \<and>
   \<not> 1000 - lastShotTime (obj twoPlayers 0) < 100 \<and>
   dirLength (BulletData.direction zeroShot) \<le> 1 / 1000000 \<and>
   0 < dirLength (BulletData.direction pistolShot) \<and>
   lastShotTime (obj (handleBullet 1000 1000 zeroShot twoPlayers) 0) = 1000 \<and>
   bullets (handleBullet 1000 1000 zeroShot twoPlayers) = [] \<and>
   handleBullet 1050 1050 pistolShot (handleBullet 1000 1000 zeroShot twoPlayers)
     = handleBullet 1000 1000 zeroShot twoPlayers"
proof -
  have h: "map_of (GameRoom.players twoPlayers) (BulletData.playerId zeroShot) = Some 0"
    "\<not> 1000 - lastShotTime (obj twoPlayers 0) < 100"
    "dirLength (BulletData.direction zeroShot) \<le> 1 / 1000000"
    "BulletData.playerId pistolShot = BulletData.playerId zeroShot"
    "(1050::int) - 1000 < 100"
    "0 < dirLength (BulletData.direction pistolShot)"
    "bullets twoPlayers = []"
    by (simp_all add: room_eval shot_eval)
  from zero_direction_consumes_rate_window[OF h(1-5), of 1000 1050] h show ?thesis by simp
qed



end
